theory Spec2Isabelle
  imports Main "HOL-Library.AList" "HOL-Library.Finite_Map"
    "HOL-Library.Char_ord" "HOL-Library.List_Lexorder" "HOL-Library.Word"
begin

section \<open>Strings (src/shared/utils.ts, the string built-ins it calls)\<close>

text \<open>
  A JavaScript string is a sequence of UTF-16 code units. The content script is
  modelled on the strings of code units below U+0100: a \<open>char\<close> is the code unit
  with that number (Latin-1), and \<open>toLowerCase\<close>, \<open>trim\<close>, \<open>\s\<close> and \<open>\w\<close> are
  written out for that range. \<open>normalizeWord\<close> is given on all strings of code
  units as well, at the end of this section.
\<close>

definition charCode :: "char \<Rightarrow> nat" where
  "charCode c = of_char c"

text \<open>The white space of \<open>String.prototype.trim\<close> and of \<open>\s\<close>:
  TAB, LF, VT, FF, CR, SP and NBSP.\<close>

definition isWhiteSpace :: "char \<Rightarrow> bool" where
  "isWhiteSpace c = (charCode c \<in> {9, 10, 11, 12, 13, 32, 160})"

text \<open>The class \<open>\w\<close> is \<open>[A-Za-z0-9_]\<close>.\<close>

definition isWordChar :: "char \<Rightarrow> bool" where
  "isWordChar c = (let n = charCode c in
     (65 \<le> n \<and> n \<le> 90) \<or> (97 \<le> n \<and> n \<le> 122) \<or> (48 \<le> n \<and> n \<le> 57) \<or> n = 95)"

text \<open>Lower case: \<open>A-Z\<close> and the Latin-1 capitals U+00C0..U+00DE (the multiplication
  sign U+00D7 apart) move up by 32; every other code unit stays.\<close>

definition toLowerChar :: "char \<Rightarrow> char" where
  "toLowerChar c = (let n = charCode c in
     if (65 \<le> n \<and> n \<le> 90) \<or> (192 \<le> n \<and> n \<le> 222 \<and> n \<noteq> 215)
     then char_of (n + 32) else c)"

definition toLowerCase :: "string \<Rightarrow> string" where
  "toLowerCase s = map toLowerChar s"

definition trim :: "string \<Rightarrow> string" where
  "trim s = rev (dropWhile isWhiteSpace (rev (dropWhile isWhiteSpace s)))"

text \<open>\<^verbatim>\<open>word.toLowerCase().trim().replace(/[^\w]/g, '')\<close>\<close>

definition normalizeWord :: "string \<Rightarrow> string" where
  "normalizeWord word = filter isWordChar (trim (toLowerCase word))"

text \<open>\<open>s.startsWith(k)\<close> and \<open>s.includes(k)\<close>: \<open>k\<close> occurs in \<open>s\<close> as a
  contiguous run; the empty string occurs in every string.\<close>

definition startsWith :: "string \<Rightarrow> string \<Rightarrow> bool" where
  "startsWith s k = (take (length k) s = k)"

fun includesStr :: "string \<Rightarrow> string \<Rightarrow> bool" where
  "includesStr [] k = (k = [])"
| "includesStr (c # cs) k = (startsWith (c # cs) k \<or> includesStr cs k)"

text \<open>\<open>s.endsWith(k)\<close>\<close>

definition endsWith :: "string \<Rightarrow> string \<Rightarrow> bool" where
  "endsWith s k = startsWith (rev s) (rev k)"

text \<open>\<^verbatim>\<open>text.split(/(\s+)/)\<close>: the pieces between the runs of white space, with
  each run kept as a piece of its own between them. A string that starts or ends
  with white space gives an empty first or last piece, and the empty string gives
  one empty piece.\<close>

function splitWhitespace :: "string \<Rightarrow> string list" where
  "splitWhitespace s =
     (let piece = takeWhile (\<lambda>c. \<not> isWhiteSpace c) s;
          rest = dropWhile (\<lambda>c. \<not> isWhiteSpace c) s
      in if rest = [] then [piece]
         else piece # takeWhile isWhiteSpace rest
                # splitWhitespace (dropWhile isWhiteSpace rest))"
  by pat_completeness auto
termination
proof (relation "measure length")
  show "wf (measure length)" by simp
next
  fix s :: string and piece rest :: string
  assume p: "rest = dropWhile (\<lambda>c. \<not> isWhiteSpace c) s" and ne: "rest \<noteq> []"
  from ne obtain c cs where r: "rest = c # cs" by (cases rest) auto
  with p have "isWhiteSpace c"
    by (metis hd_dropWhile list.sel(1) list.simps(3))
  then have "length (dropWhile isWhiteSpace rest) \<le> length cs"
    using r by (simp add: length_dropWhile_le)
  moreover have "length rest \<le> length s"
    using p by (simp add: length_dropWhile_le)
  ultimately show "(dropWhile isWhiteSpace rest, s) \<in> measure length"
    using r by simp
qed

declare splitWhitespace.simps [simp del]

text \<open>\<^verbatim>\<open>/\s/.test(word)\<close>\<close>

definition hasWhiteSpace :: "string \<Rightarrow> bool" where
  "hasWhiteSpace word = list_ex isWhiteSpace word"

subsection \<open>\<open>normalizeWord\<close> on every string\<close>

text \<open>
  A string of UTF-16 code units, each a 16-bit word. White space (\<open>trim\<close>, \<open>\s\<close>)
  is TAB, LF, VT, FF, CR, SP, NBSP, U+1680, U+2000 to U+200A, U+2028, U+2029,
  U+202F, U+205F, U+3000 and U+FEFF, each one code unit; \<open>\w\<close> is
  \<open>[A-Za-z0-9_]\<close>, and the replacement without the \<open>u\<close> flag goes code unit by
  code unit. \<open>String.prototype.toLowerCase\<close>, which follows the case tables of
  Unicode and may change the length of a string, is the parameter \<open>lowerCase\<close>.
\<close>

type_synonym codeUnit = "16 word"

definition unitCode :: "codeUnit \<Rightarrow> nat" where
  "unitCode c = unat c"

definition isWhiteSpaceUnit :: "codeUnit \<Rightarrow> bool" where
  "isWhiteSpaceUnit c = (let n = unitCode c in
     n \<in> {9, 10, 11, 12, 13, 32, 160, 5760, 8232, 8233, 8239, 8287, 12288, 65279} \<or>
     (8192 \<le> n \<and> n \<le> 8202))"

definition isWordUnit :: "codeUnit \<Rightarrow> bool" where
  "isWordUnit c = (let n = unitCode c in
     (65 \<le> n \<and> n \<le> 90) \<or> (97 \<le> n \<and> n \<le> 122) \<or> (48 \<le> n \<and> n \<le> 57) \<or> n = 95)"

text \<open>One of \<open>A\<close> to \<open>Z\<close>.\<close>

definition isCapitalUnit :: "codeUnit \<Rightarrow> bool" where
  "isCapitalUnit c = (65 \<le> unitCode c \<and> unitCode c \<le> 90)"

definition trimUnits :: "codeUnit list \<Rightarrow> codeUnit list" where
  "trimUnits s = rev (dropWhile isWhiteSpaceUnit (rev (dropWhile isWhiteSpaceUnit s)))"

text \<open>\<^verbatim>\<open>word.toLowerCase().trim().replace(/[^\w]/g, '')\<close>\<close>

definition normalizeWordUTF16 ::
  "(codeUnit list \<Rightarrow> codeUnit list) \<Rightarrow> codeUnit list \<Rightarrow> codeUnit list" where
  "normalizeWordUTF16 lowerCase word = filter isWordUnit (trimUnits (lowerCase word))"

text \<open>The code unit of a character of the Latin-1 strings above.\<close>

definition unitOfChar :: "char \<Rightarrow> codeUnit" where
  "unitOfChar c = of_nat (charCode c)"

section \<open>Records of src/shared/types.ts\<close>

text \<open>
  A record of an object store is kept under its \<open>id\<close> (the stores are created with
  \<open>keyPath: 'id'\<close>), so each interface is split in the fields a store holds under
  the key and the record with its key (\<open>word_id\<close>, \<open>occurrence_id\<close>; the field
  \<open>context\<close> is \<open>context_str\<close>). Dates are numbers of milliseconds.
  \<open>difficulty\<close> and \<open>replacementMode\<close> are the strings they are at run time.
\<close>

record VocabularyData =
  english :: string
  hebrew :: string
  dateAdded :: nat
  lastSeen :: "nat option"
  timesShown :: nat
  difficulty :: string
  category :: string

record VocabularyWord = VocabularyData +
  word_id :: string

record OccurrenceData =
  wordId :: string
  url :: string
  timestamp :: nat
  context_str :: string

record WordOccurrence = OccurrenceData +
  occurrence_id :: string

record UserSettings =
  isEnabled :: bool
  replacementMode :: string
  replacementPercentage :: rat
  showTooltipDelay :: nat
  categories :: "string list"
  excludedDomains :: "string list"

section \<open>Replacement policy (src/shared/utils.ts)\<close>

text \<open>The object literal \<open>difficultyMultiplier\<close>, read at a key. A key without a
  number in the table gives \<open>None\<close>: the product with it is NaN.\<close>

definition difficultyMultiplier :: "string \<Rightarrow> rat option" where
  "difficultyMultiplier d =
     (if d = ''easy'' then Some (8 / 10)
      else if d = ''medium'' then Some (5 / 10)
      else if d = ''hard'' then Some (3 / 10)
      else None)"

text \<open>\<open>shouldReplaceWord\<close>, with the value of \<open>Math.random()\<close> as its first
  argument. Numbers are rationals; a comparison with NaN is false. The products
  are exact here and rounded to a double in the code, so the two can differ
  where a product is within a rounding of the threshold.\<close>

definition shouldReplaceWord :: "rat \<Rightarrow> VocabularyWord \<Rightarrow> UserSettings \<Rightarrow> bool" where
  "shouldReplaceWord random word settings =
     (if \<not> isEnabled settings then False
      else if replacementMode settings = ''all'' then True
      else if replacementMode settings = ''random'' then
        random * 100 < replacementPercentage settings
      else if replacementMode settings = ''difficulty-based'' then
        (case difficultyMultiplier (difficulty word) of
           None \<Rightarrow> False
         | Some m \<Rightarrow> random * 100 < replacementPercentage settings * m)
      else False)"

text \<open>How many times a call of \<open>shouldReplaceWord\<close> evaluates \<open>Math.random()\<close>.\<close>

definition randomDraws :: "UserSettings \<Rightarrow> nat" where
  "randomDraws settings =
     (if isEnabled settings \<and>
         (replacementMode settings = ''random'' \<or> replacementMode settings = ''difficulty-based'')
      then 1 else 0)"

subsection \<open>Excluded domains\<close>

text \<open>\<open>isDomainExcluded\<close>. \<open>new URL(url).hostname\<close> is the parameter
  \<open>hostnameOf\<close>: the host name of a string that parses as a URL, \<open>None\<close> where the
  constructor throws.\<close>

definition isDomainExcluded :: "(string \<Rightarrow> string option) \<Rightarrow> string \<Rightarrow> string list \<Rightarrow> bool" where
  "isDomainExcluded hostnameOf href excluded =
     (case hostnameOf href of
        None \<Rightarrow> True
      | Some domain \<Rightarrow>
          list_ex (\<lambda>e. domain = e \<or> endsWith domain (''.'' @ e)) excluded)"

section \<open>The document\<close>

text \<open>
  A node of the document: a text node with its data, an element with its tag name,
  class list and children, or a node of another kind (a comment). The number is
  the identity of the node, which is what a \<open>WeakSet\<close>, a \<open>Set\<close> or a \<open>Map\<close> of
  nodes compares; the nodes of a document have identities of their own.
\<close>

datatype node =
    TextNode nat string
  | Element nat string "string list" "node list"
  | OtherNode nat

fun nodeId :: "node \<Rightarrow> nat" where
  "nodeId (TextNode n t) = n"
| "nodeId (Element n tag cls kids) = n"
| "nodeId (OtherNode n) = n"

text \<open>\<open>textContent\<close>: the data of the text nodes below, in document order.\<close>

fun textContent :: "node \<Rightarrow> string" where
  "textContent (TextNode n t) = t"
| "textContent (Element n tag cls kids) = concat (map textContent kids)"
| "textContent (OtherNode n) = []"

text \<open>An element as seen from below: its tag name and its class list. A chain
  is an element followed by its ancestors, the nearest first.\<close>

type_synonym ancestor = "string \<times> string list"

definition skipTags :: "string list" where
  "skipTags = [''SCRIPT'', ''STYLE'', ''TEXTAREA'', ''INPUT'', ''CODE'', ''PRE'', ''NOSCRIPT'']"

text \<open>\<^verbatim>\<open>el.closest('.hebrew-replacement, .hebrew-tooltip, .hebrew-loading-tooltip,
  .hebrew-temp-message')\<close> is not null: the element or one of its ancestors has
  one of the four classes.\<close>

definition ownClasses :: "string list" where
  "ownClasses = [''hebrew-replacement'', ''hebrew-tooltip'', ''hebrew-loading-tooltip'',
     ''hebrew-temp-message'']"

definition closestOwn :: "ancestor list \<Rightarrow> bool" where
  "closestOwn chain = list_ex (\<lambda>a. list_ex (\<lambda>c. c \<in> set (snd a)) ownClasses) chain"

text \<open>The filter of the tree walker in \<open>processContainer\<close>, at a text node with
  the chain of its parent: true is \<open>FILTER_ACCEPT\<close>, false is \<open>FILTER_REJECT\<close>.\<close>

definition acceptNode :: "nat set \<Rightarrow> ancestor list \<Rightarrow> nat \<Rightarrow> bool" where
  "acceptNode processed chain n =
     (case chain of
        [] \<Rightarrow> False
      | parent # _ \<Rightarrow>
          if fst parent \<in> set skipTags then False
          else if ''hebrew-replacement'' \<in> set (snd parent) \<or> closestOwn chain then False
          else if n \<in> processed then False
          else True)"

text \<open>The walk of \<open>createTreeWalker(container, SHOW_TEXT, filter)\<close>: the text
  nodes below the container that the filter accepts, in document order. Elements
  are not shown to the filter and the walk goes through them.\<close>

fun textNodesUnder :: "nat set \<Rightarrow> ancestor list \<Rightarrow> node \<Rightarrow> (nat \<times> string) list" where
  "textNodesUnder processed chain (TextNode n t) =
     (if acceptNode processed chain n then [(n, t)] else [])"
| "textNodesUnder processed chain (Element n tag cls kids) =
     concat (map (textNodesUnder processed ((tag, cls) # chain)) kids)"
| "textNodesUnder processed chain (OtherNode n) = []"

definition walkerNodes :: "nat set \<Rightarrow> ancestor list \<Rightarrow> node \<Rightarrow> (nat \<times> string) list" where
  "walkerNodes processed ancestors container =
     (case container of
        Element n tag cls kids \<Rightarrow> textNodesUnder processed ancestors container
      | _ \<Rightarrow> [])"

text \<open>\<open>textNode.parentNode?.replaceChild(fragment, textNode)\<close> inside a tree: the
  children of the fragment take the place of the text node with that identity.\<close>

definition isTextNode :: "nat \<Rightarrow> node \<Rightarrow> bool" where
  "isTextNode n k = (case k of TextNode m t \<Rightarrow> m = n | _ \<Rightarrow> False)"

fun replaceChild :: "node list \<Rightarrow> nat \<Rightarrow> node \<Rightarrow> node" where
  "replaceChild fragment n (Element i tag cls kids) =
     Element i tag cls
       (concat (map (\<lambda>k. if isTextNode n k then fragment
                          else [replaceChild fragment n k]) kids))"
| "replaceChild fragment n (TextNode i t) = TextNode i t"
| "replaceChild fragment n (OtherNode i) = OtherNode i"

text \<open>\<open>el.remove()\<close> inside a tree.\<close>

fun removeNode :: "nat \<Rightarrow> node \<Rightarrow> node" where
  "removeNode n (Element i tag cls kids) =
     Element i tag cls (map (removeNode n) (filter (\<lambda>k. nodeId k \<noteq> n) kids))"
| "removeNode n (TextNode i t) = TextNode i t"
| "removeNode n (OtherNode i) = OtherNode i"

text \<open>The loop of \<open>resetReplacements\<close> over
  \<open>querySelectorAll('.hebrew-replacement')\<close>: each element with the class gives
  way to a new text node holding \<open>element.textContent\<close>, and what was below
  it leaves the document with it. The first argument is the identity of the next
  node created.\<close>

fun resetNode :: "nat \<Rightarrow> node \<Rightarrow> nat \<times> node"
  and resetNodes :: "nat \<Rightarrow> node list \<Rightarrow> nat \<times> node list" where
  "resetNode n (Element i tag cls kids) =
     (if ''hebrew-replacement'' \<in> set cls
      then (Suc n, TextNode n (textContent (Element i tag cls kids)))
      else (case resetNodes n kids of (n', kids') \<Rightarrow> (n', Element i tag cls kids')))"
| "resetNode n (TextNode i t) = (n, TextNode i t)"
| "resetNode n (OtherNode i) = (n, OtherNode i)"
| "resetNodes n [] = (n, [])"
| "resetNodes n (k # ks) =
     (case resetNode n k of (n1, k') \<Rightarrow>
        (case resetNodes n1 ks of (n2, ks') \<Rightarrow> (n2, k' # ks')))"

section \<open>The content script (src/content/content.ts)\<close>

text \<open>A \<open>MutationRecord\<close>: the chain of its target when the target is an element,
  and the nodes added.\<close>

record MutationRecord =
  target :: "ancestor list option"
  addedNodes :: "node list"

text \<open>The two callbacks the script gives to \<open>setTimeout\<close> under
  \<open>processTimeout\<close>: the debounced body of the mutation observer with the records
  it closes over, and the flush of the processing queue.\<close>

datatype timer = MutationTimer "MutationRecord list" | QueueTimer

datatype error = TypeError | DatabaseNotInitialized

text \<open>
  The fields of \<open>ContentScript\<close> and what it works on: \<open>body\<close> is the tree of
  \<open>document.body\<close>, \<open>nextNodeId\<close> the identity of the next node the document
  creates, \<open>randomPos\<close> the number of values \<open>Math.random()\<close> has given, and
  \<open>occurrenceTimers\<close> the calls of \<open>recordOccurrence\<close> put on the timer queue.
  \<open>replacedWords\<close> and \<open>vocabularyMap\<close> are \<open>Map\<close>s, in insertion order;
  \<open>processedNodes\<close> is the \<open>WeakSet\<close>; \<open>processingQueue\<close> is the \<open>Set\<close>, in
  insertion order; \<open>processTimeout\<close> is the timer set last. \<open>observer\<close> and
  \<open>listening\<close> say that the mutation observer and the event listeners are
  installed.
\<close>

record ContentScript =
  vocabulary :: "VocabularyWord list"
  settings :: "UserSettings option"
  replacedWords :: "(nat \<times> string \<times> VocabularyWord) list"
  tooltip :: "nat option"
  isProcessing :: bool
  observer :: bool
  listening :: bool
  ctrlTooltip :: "nat option"
  vocabularyMap :: "(string \<times> VocabularyWord) list"
  processedNodes :: "nat set"
  processingQueue :: "nat list"
  processTimeout :: "timer option"
  body :: node
  nextNodeId :: nat
  randomPos :: nat
  occurrenceTimers :: "(VocabularyWord \<times> string) list"

text \<open>The root element above \<open>document.body\<close>, taken to carry no class.\<close>

definition bodyAncestors :: "ancestor list" where
  "bodyAncestors = [(''HTML'', [])]"

definition buildVocabularyMap :: "ContentScript \<Rightarrow> ContentScript" where
  "buildVocabularyMap s =
     s\<lparr>vocabularyMap :=
         fold (\<lambda>word m. AList.update (normalizeWord (english word)) word m) (vocabulary s) []\<rparr>"

text \<open>\<open>loadData\<close>: the answers to \<open>GET_VOCABULARY\<close> and \<open>GET_SETTINGS\<close> are the
  argument, \<open>None\<close> when \<open>sendMessage\<close> rejects; each answer may lack its field.\<close>

definition loadData ::
  "(VocabularyWord list option \<times> UserSettings option) option \<Rightarrow> ContentScript \<Rightarrow> ContentScript" where
  "loadData response s =
     (case response of
        None \<Rightarrow> s
      | Some (vocabularyResponse, settingsResponse) \<Rightarrow>
          buildVocabularyMap
            (s\<lparr>vocabulary := (case vocabularyResponse of None \<Rightarrow> [] | Some v \<Rightarrow> v),
               settings := settingsResponse\<rparr>))"

definition textContainsVocabulary :: "ContentScript \<Rightarrow> string \<Rightarrow> bool" where
  "textContainsVocabulary s text =
     (let normalizedText = toLowerCase text
      in list_ex (\<lambda>(normalizedWord, _). includesStr normalizedText normalizedWord)
           (vocabularyMap s))"

definition recordOccurrenceAsync :: "ContentScript \<Rightarrow> VocabularyWord \<Rightarrow> string \<Rightarrow> ContentScript" where
  "recordOccurrenceAsync s word context =
     s\<lparr>occurrenceTimers := occurrenceTimers s @ [(word, context)]\<rparr>"

text \<open>\<open>createReplacement\<close>: a new \<open>span\<close> of class \<open>hebrew-replacement\<close> whose
  text content is the translation (no child when it is the empty string),
  entered in \<open>replacedWords\<close> with the original word.\<close>

definition createReplacement ::
  "ContentScript \<Rightarrow> string \<Rightarrow> VocabularyWord \<Rightarrow> ContentScript \<times> node" where
  "createReplacement s originalWord vocabularyWord =
     (let n = nextNodeId s;
          kids = (if hebrew vocabularyWord = [] then []
                  else [TextNode (Suc n) (hebrew vocabularyWord)]);
          span = Element n ''SPAN'' [''hebrew-replacement''] kids
      in (s\<lparr>nextNodeId := n + 1 + length kids,
             replacedWords := AList.update n (originalWord, vocabularyWord) (replacedWords s)\<rparr>,
          span))"

text \<open>\<open>replaceTextNode\<close>: the fragment has a new text node for each string of the
  content and the element itself for each element.\<close>

fun fragmentOf :: "nat \<Rightarrow> (string + node) list \<Rightarrow> nat \<times> node list" where
  "fragmentOf n [] = (n, [])"
| "fragmentOf n (Inl item # content) =
     (case fragmentOf (Suc n) content of (n', nodes) \<Rightarrow> (n', TextNode n item # nodes))"
| "fragmentOf n (Inr item # content) =
     (case fragmentOf n content of (n', nodes) \<Rightarrow> (n', item # nodes))"

definition replaceTextNode ::
  "ContentScript \<Rightarrow> node \<Rightarrow> nat \<Rightarrow> (string + node) list \<Rightarrow> ContentScript \<times> node" where
  "replaceTextNode s root textNode content =
     (case fragmentOf (nextNodeId s) content of
        (n', fragment) \<Rightarrow> (s\<lparr>nextNodeId := n'\<rparr>, replaceChild fragment textNode root))"

text \<open>One turn of the loop of \<open>processTextNode\<close> over the pieces: the item pushed
  on \<open>newContent\<close> and whether it is a replacement. \<open>random\<close> is the sequence of
  values of \<open>Math.random()\<close>. Reading \<open>isEnabled\<close> of null settings throws.\<close>

definition processWord ::
  "(nat \<Rightarrow> rat) \<Rightarrow> ContentScript \<Rightarrow> string \<Rightarrow> string
     \<Rightarrow> error + (ContentScript \<times> (string + node) \<times> bool)" where
  "processWord random s text word =
     (if hasWhiteSpace word then Inr (s, Inl word, False)
      else
        (case map_of (vocabularyMap s) (normalizeWord word) of
           None \<Rightarrow> Inr (s, Inl word, False)
         | Some vocabularyWord \<Rightarrow>
             (case settings s of
                None \<Rightarrow> Inl TypeError
              | Some st \<Rightarrow>
                  (let r = random (randomPos s);
                       s1 = s\<lparr>randomPos := randomPos s + randomDraws st\<rparr>
                   in if shouldReplaceWord r vocabularyWord st
                      then (case createReplacement s1 word vocabularyWord of
                              (s2, replacement) \<Rightarrow>
                                Inr (recordOccurrenceAsync s2 vocabularyWord text,
                                     Inr replacement, True))
                      else Inr (s1, Inl word, False)))))"

fun processWords ::
  "(nat \<Rightarrow> rat) \<Rightarrow> ContentScript \<Rightarrow> string \<Rightarrow> string list
     \<Rightarrow> error + (ContentScript \<times> (string + node) list \<times> bool)" where
  "processWords random s text [] = Inr (s, [], False)"
| "processWords random s text (word # words) =
     (case processWord random s text word of
        Inl e \<Rightarrow> Inl e
      | Inr (s1, item, replaced) \<Rightarrow>
          (case processWords random s1 text words of
             Inl e \<Rightarrow> Inl e
           | Inr (s2, newContent, hasReplacements) \<Rightarrow>
               Inr (s2, item # newContent, replaced \<or> hasReplacements)))"

text \<open>\<open>processTextNode\<close> on the text node with identity \<open>textNode\<close> and data
  \<open>text\<close>, inside the tree \<open>root\<close>.\<close>

definition processTextNode ::
  "(nat \<Rightarrow> rat) \<Rightarrow> ContentScript \<Rightarrow> node \<Rightarrow> nat \<times> string \<Rightarrow> error + (ContentScript \<times> node)" where
  "processTextNode random s root textNode =
     (let text = snd textNode
      in if text = [] \<or> length (trim text) = 0 then Inr (s, root)
         else if \<not> textContainsVocabulary s text then Inr (s, root)
         else
           (case processWords random s text (splitWhitespace text) of
              Inl e \<Rightarrow> Inl e
            | Inr (s1, newContent, hasReplacements) \<Rightarrow>
                if hasReplacements
                then Inr (replaceTextNode s1 root (fst textNode) newContent)
                else Inr (s1, root)))"

text \<open>The inner loop of \<open>processContainer\<close> over one batch.\<close>

fun processBatch ::
  "(nat \<Rightarrow> rat) \<Rightarrow> ContentScript \<Rightarrow> node \<Rightarrow> (nat \<times> string) list \<Rightarrow> error + (ContentScript \<times> node)" where
  "processBatch random s root [] = Inr (s, root)"
| "processBatch random s root (textNode # batch) =
     (if fst textNode \<notin> processedNodes s
      then (case processTextNode random
                   (s\<lparr>processedNodes := insert (fst textNode) (processedNodes s)\<rparr>)
                   root textNode of
              Inl e \<Rightarrow> Inl e
            | Inr (s1, root1) \<Rightarrow> processBatch random s1 root1 batch)
      else processBatch random s root batch)"

definition batchSize :: nat where
  "batchSize = 50"

text \<open>The outer loop: the text nodes in batches of \<open>batchSize\<close>. The frames and
  the yields between the batches are not part of the model; an exception in a
  batch leaves the promise of \<open>processContainer\<close> pending, which is the error
  result.\<close>

function processBatches ::
  "(nat \<Rightarrow> rat) \<Rightarrow> ContentScript \<Rightarrow> node \<Rightarrow> (nat \<times> string) list \<Rightarrow> error + (ContentScript \<times> node)" where
  "processBatches random s root textNodes =
     (if textNodes = [] then Inr (s, root)
      else (case processBatch random s root (take batchSize textNodes) of
              Inl e \<Rightarrow> Inl e
            | Inr (s1, root1) \<Rightarrow> processBatches random s1 root1 (drop batchSize textNodes)))"
  by pat_completeness auto
termination
  by (relation "measure (\<lambda>(random, s, root, textNodes). length textNodes)")
     (auto simp: batchSize_def)

declare processBatches.simps [simp del]

definition processContainer ::
  "(nat \<Rightarrow> rat) \<Rightarrow> ancestor list \<Rightarrow> ContentScript \<Rightarrow> node \<Rightarrow> error + (ContentScript \<times> node)" where
  "processContainer random ancestors s container =
     (if nodeId container \<in> processedNodes s then Inr (s, container)
      else
        (let s1 = s\<lparr>processedNodes := insert (nodeId container) (processedNodes s)\<rparr>;
             textNodes = walkerNodes (processedNodes s1) ancestors container
         in processBatches random s1 container textNodes))"

definition enabled :: "ContentScript \<Rightarrow> bool" where
  "enabled s = (case settings s of None \<Rightarrow> False | Some st \<Rightarrow> isEnabled st)"

definition processPage :: "(nat \<Rightarrow> rat) \<Rightarrow> ContentScript \<Rightarrow> error + ContentScript" where
  "processPage random s =
     (if \<not> enabled s \<or> length (vocabularyMap s) = 0 then Inr s
      else
        (case processContainer random bodyAncestors
                (s\<lparr>isProcessing := True, processedNodes := {}\<rparr>) (body s) of
           Inl e \<Rightarrow> Inl e
         | Inr (s1, body1) \<Rightarrow> Inr (s1\<lparr>body := body1, isProcessing := False\<rparr>)))"

definition hideTooltip :: "ContentScript \<Rightarrow> ContentScript" where
  "hideTooltip s =
     (case tooltip s of
        None \<Rightarrow> s
      | Some t \<Rightarrow> s\<lparr>body := removeNode t (body s), tooltip := None\<rparr>)"

definition hideCtrlTooltip :: "ContentScript \<Rightarrow> ContentScript" where
  "hideCtrlTooltip s =
     (case ctrlTooltip s of
        None \<Rightarrow> s
      | Some t \<Rightarrow> s\<lparr>body := removeNode t (body s), ctrlTooltip := None\<rparr>)"

definition resetReplacements :: "ContentScript \<Rightarrow> ContentScript" where
  "resetReplacements s =
     (case resetNode (nextNodeId s) (body s) of
        (n', body') \<Rightarrow>
          hideCtrlTooltip (hideTooltip
            (s\<lparr>body := body', nextNodeId := n', replacedWords := [], processedNodes := {}\<rparr>)))"

subsection \<open>The mutation observer\<close>

definition setAdd :: "nat \<Rightarrow> nat list \<Rightarrow> nat list" where
  "setAdd n q = (if n \<in> set q then q else q @ [n])"

definition queueNodesForProcessing :: "ContentScript \<Rightarrow> node list \<Rightarrow> ContentScript" where
  "queueNodesForProcessing s nodes =
     s\<lparr>processingQueue := fold (\<lambda>node q. setAdd (nodeId node) q) nodes (processingQueue s),
       processTimeout := Some QueueTimer\<rparr>"

definition isTextOrElement :: "node \<Rightarrow> bool" where
  "isTextOrElement k = (case k of OtherNode n \<Rightarrow> False | _ \<Rightarrow> True)"

definition processMutations :: "ContentScript \<Rightarrow> MutationRecord list \<Rightarrow> ContentScript" where
  "processMutations s mutations =
     (let nodesToProcess = concat (map (\<lambda>m. filter isTextOrElement (addedNodes m)) mutations)
      in if length nodesToProcess > 0 then queueNodesForProcessing s nodesToProcess else s)"

definition relevantMutation :: "MutationRecord \<Rightarrow> bool" where
  "relevantMutation mutation =
     (case target mutation of
        None \<Rightarrow> True
      | Some chain \<Rightarrow>
          \<not> ((case chain of
                  [] \<Rightarrow> False
                | el # _ \<Rightarrow> ''hebrew-replacement'' \<in> set (snd el))
               \<or> closestOwn chain))"

text \<open>The callback of the \<open>MutationObserver\<close>: it sets the timer. \<open>mutationTimer\<close>
  is what runs when that timer fires.\<close>

definition observerCallback :: "ContentScript \<Rightarrow> MutationRecord list \<Rightarrow> ContentScript" where
  "observerCallback s mutations = s\<lparr>processTimeout := Some (MutationTimer mutations)\<rparr>"

definition mutationTimer :: "ContentScript \<Rightarrow> MutationRecord list \<Rightarrow> ContentScript" where
  "mutationTimer s mutations =
     (if isProcessing s \<or> \<not> enabled s then s
      else
        (let relevantMutations = filter relevantMutation mutations
         in if length relevantMutations > 0 then processMutations s relevantMutations else s))"

subsection \<open>Start\<close>

definition initialize ::
  "(string \<Rightarrow> string option) \<Rightarrow> string
     \<Rightarrow> (VocabularyWord list option \<times> UserSettings option) option
     \<Rightarrow> (nat \<Rightarrow> rat) \<Rightarrow> ContentScript \<Rightarrow> error + ContentScript" where
  "initialize hostnameOf href response random s =
     (if isDomainExcluded hostnameOf href
           (case settings s of None \<Rightarrow> [] | Some st \<Rightarrow> excludedDomains st)
      then Inr s
      else processPage random
             ((buildVocabularyMap (loadData response s))\<lparr>listening := True, observer := True\<rparr>))"

section \<open>The database (src/shared/database.ts)\<close>

text \<open>The three object stores, each a finite map from the key to what is stored
  under it, and the manager with its \<open>db\<close> field, null before \<open>initialize\<close>.\<close>

record Database =
  vocabularyStore :: "(string, VocabularyData) fmap"
  occurrencesStore :: "(string, OccurrenceData) fmap"
  settingsStore :: "(string, UserSettings) fmap"

record DatabaseManager =
  db :: "Database option"

text \<open>\<open>db.getAllFromIndex('occurrences', 'wordId', id)\<close>: the occurrence records
  whose \<open>wordId\<close> is the argument, in the order of their keys.\<close>

definition getAllFromIndex_wordId :: "Database \<Rightarrow> string \<Rightarrow> WordOccurrence list" where
  "getAllFromIndex_wordId d wid =
     List.map_filter
       (\<lambda>k. case fmlookup (occurrencesStore d) k of
              None \<Rightarrow> None
            | Some r \<Rightarrow>
                if wordId r = wid
                then Some \<lparr>wordId = wordId r, url = url r, timestamp = timestamp r,
                            context_str = context_str r, occurrence_id = k\<rparr>
                else None)
       (sorted_list_of_fset (fmdom (occurrencesStore d)))"

text \<open>\<open>db.delete('occurrences', occurrence.id)\<close>\<close>

definition deleteOccurrence :: "WordOccurrence \<Rightarrow> Database \<Rightarrow> Database" where
  "deleteOccurrence occurrence d =
     d\<lparr>occurrencesStore := fmdrop (occurrence_id occurrence) (occurrencesStore d)\<rparr>"

definition removeWord :: "DatabaseManager \<Rightarrow> string \<Rightarrow> error + DatabaseManager" where
  "removeWord m wid =
     (case db m of
        None \<Rightarrow> Inl DatabaseNotInitialized
      | Some d \<Rightarrow>
          (let d1 = d\<lparr>vocabularyStore := fmdrop wid (vocabularyStore d)\<rparr>;
               occurrences = getAllFromIndex_wordId d1 wid
           in Inr (m\<lparr>db := Some (fold deleteOccurrence occurrences d1)\<rparr>)))"

section \<open>Sample data\<close>

text \<open>The vocabulary and the settings of the script's tests (the translation in
  Latin letters), and a small page.\<close>

definition helloWord :: VocabularyWord where
  "helloWord = \<lparr>english = ''hello'', hebrew = ''shalom'', dateAdded = 0, lastSeen = None,
     timesShown = 0, difficulty = ''easy'', category = ''greetings'', word_id = ''1''\<rparr>"

definition mockSettings :: "string \<Rightarrow> rat \<Rightarrow> UserSettings" where
  "mockSettings mode percentage = \<lparr>isEnabled = True, replacementMode = mode,
     replacementPercentage = percentage, showTooltipDelay = 500,
     categories = [''general''], excludedDomains = []\<rparr>"

text \<open>A \<open>ContentScript\<close> as its constructor leaves it, on a page.\<close>

definition newContentScript :: "node \<Rightarrow> nat \<Rightarrow> ContentScript" where
  "newContentScript page fresh = \<lparr>vocabulary = [], settings = None, replacedWords = [],
     tooltip = None, isProcessing = False, observer = False, listening = False,
     ctrlTooltip = None, vocabularyMap = [], processedNodes = {}, processingQueue = [],
     processTimeout = None, body = page, nextNodeId = fresh, randomPos = 0,
     occurrenceTimers = []\<rparr>"

definition helloPage :: node where
  "helloPage = Element 0 ''BODY'' [] [Element 1 ''P'' [] [TextNode 2 ''Hello world'']]"

definition loadedScript :: "node \<Rightarrow> nat \<Rightarrow> VocabularyWord list \<Rightarrow> UserSettings \<Rightarrow> ContentScript" where
  "loadedScript page fresh words st =
     loadData (Some (Some words, Some st)) (newContentScript page fresh)"

text \<open>A host-name reader that knows one address and throws on every other string.\<close>

definition sampleHostname :: "string \<Rightarrow> string option" where
  "sampleHostname href =
     (if href = ''https://www.example.com/page'' then Some ''www.example.com'' else None)"

text \<open>The script with the test vocabulary loaded and the extension switched off,
  and a mutation that adds a paragraph.\<close>

definition disabledSettings :: UserSettings where
  "disabledSettings = (mockSettings ''all'' 100)\<lparr>isEnabled := False\<rparr>"

definition disabledScript :: ContentScript where
  "disabledScript = loadedScript helloPage 3 [helloWord] disabledSettings"

definition enabledScript :: ContentScript where
  "enabledScript = loadedScript helloPage 3 [helloWord] (mockSettings ''all'' 100)"

definition sampleMutation :: MutationRecord where
  "sampleMutation = \<lparr>target = Some [(''BODY'', [])],
     addedNodes = [Element 10 ''P'' [] [TextNode 11 ''hello again'']]\<rparr>"

text \<open>A page with the same word below \<open>pre\<close> inside a \<open>span\<close>, directly below
  \<open>script\<close>, and inside a marker of an earlier pass.\<close>

definition codePage :: node where
  "codePage = Element 0 ''BODY'' []
     [Element 1 ''PRE'' [] [Element 2 ''SPAN'' [] [TextNode 3 ''Hello'']],
      Element 4 ''SCRIPT'' [] [TextNode 5 ''Hello''],
      Element 6 ''SPAN'' [''hebrew-replacement''] [Element 7 ''B'' [] [TextNode 8 ''Hello'']]]"

definition codeScript :: ContentScript where
  "codeScript = loadedScript codePage 9 [helloWord] (mockSettings ''all'' 100)"

text \<open>A vocabulary word with a hyphen, and a page that has it.\<close>

definition emailWord :: VocabularyWord where
  "emailWord = \<lparr>english = ''e-mail'', hebrew = ''doar'', dateAdded = 0, lastSeen = None,
     timesShown = 0, difficulty = ''easy'', category = ''general'', word_id = ''2''\<rparr>"

definition emailPage :: node where
  "emailPage = Element 0 ''BODY'' [] [Element 1 ''P'' [] [TextNode 2 ''Send e-mail now'']]"

definition emailScript :: ContentScript where
  "emailScript = loadedScript emailPage 3 [emailWord] (mockSettings ''all'' 100)"

text \<open>A database with one word and two occurrences, one of them of another word.\<close>

definition sampleDatabase :: Database where
  "sampleDatabase = \<lparr>
     vocabularyStore = fmap_of_list
       [(''1'', \<lparr>english = ''hello'', hebrew = ''shalom'', dateAdded = 0, lastSeen = None,
                 timesShown = 1, difficulty = ''easy'', category = ''greetings''\<rparr>)],
     occurrencesStore = fmap_of_list
       [(''occ1'', \<lparr>wordId = ''1'', url = ''test.com'', timestamp = 0, context_str = ''ctx''\<rparr>),
        (''occ2'', \<lparr>wordId = ''2'', url = ''test2.com'', timestamp = 1, context_str = ''ctx''\<rparr>)],
     settingsStore = fmap_of_list [(''userSettings'', mockSettings ''all'' 100)]\<rparr>"

text \<open>A part of the lower-case table: \<open>A-Z\<close> and the Latin-1 capitals as above,
  the Kelvin sign U+212A, whose lower case is \<open>k\<close>, and U+0130, whose lower case
  is \<open>i\<close> followed by U+0307; every other code unit stays.\<close>

definition lowerUnit :: "codeUnit \<Rightarrow> codeUnit list" where
  "lowerUnit c = (let n = unitCode c in
     if (65 \<le> n \<and> n \<le> 90) \<or> (192 \<le> n \<and> n \<le> 222 \<and> n \<noteq> 215) then [of_nat (n + 32)]
     else if n = 8490 then [107]
     else if n = 304 then [105, 775]
     else [c])"

definition sampleLowerCase :: "codeUnit list \<Rightarrow> codeUnit list" where
  "sampleLowerCase s = concat (map lowerUnit s)"

section \<open>Properties\<close>

subsection \<open>Characters\<close>

lemma charCode_char_of: "charCode (char_of (n::nat)) = n mod 256"
  by (simp add: charCode_def)

lemma charCode_lt: "charCode c < 256"
  unfolding charCode_def
  by (metis of_char_mod_256 mod_less_divisor zero_less_numeral)

lemma toLowerChar_not_upper:
  "\<not> (65 \<le> charCode (toLowerChar c) \<and> charCode (toLowerChar c) \<le> 90)"
  using charCode_lt[of c]
  by (auto simp: toLowerChar_def Let_def charCode_char_of)

lemma toLowerChar_fix:
  "isWordChar c \<Longrightarrow> \<not> (65 \<le> charCode c \<and> charCode c \<le> 90) \<Longrightarrow> toLowerChar c = c"
  by (auto simp: toLowerChar_def isWordChar_def Let_def)

lemma isWordChar_not_ws: "isWordChar c \<Longrightarrow> \<not> isWhiteSpace c"
  by (auto simp: isWordChar_def isWhiteSpace_def Let_def)

lemma dropWhile_none: "\<forall>c \<in> set xs. \<not> P c \<Longrightarrow> dropWhile P xs = xs"
  by (cases xs) auto

lemma trim_no_ws:
  assumes "\<forall>c \<in> set s. \<not> isWhiteSpace c"
  shows "trim s = s"
proof -
  have "dropWhile isWhiteSpace s = s"
    using assms by (rule dropWhile_none)
  moreover have "dropWhile isWhiteSpace (rev s) = rev s"
    by (rule dropWhile_none) (use assms in simp)
  ultimately show ?thesis by (simp add: trim_def)
qed

lemma set_trim: "set (trim s) \<subseteq> set s"
proof -
  have "set (dropWhile isWhiteSpace (rev (dropWhile isWhiteSpace s)))
          \<subseteq> set (rev (dropWhile isWhiteSpace s))"
    by (rule set_dropWhileD[THEN subsetI])
  also have "\<dots> \<subseteq> set s"
    using set_dropWhileD[of _ isWhiteSpace s] by auto
  finally show ?thesis by (simp add: trim_def)
qed

lemma normalizeWord_chars:
  assumes "c \<in> set (normalizeWord x)"
  shows "isWordChar c \<and> \<not> (65 \<le> charCode c \<and> charCode c \<le> 90)"
proof -
  from assms have w: "isWordChar c" and "c \<in> set (trim (toLowerCase x))"
    by (auto simp: normalizeWord_def)
  then have "c \<in> set (toLowerCase x)" using set_trim by blast
  then obtain d where "c = toLowerChar d" by (auto simp: toLowerCase_def)
  with w show ?thesis using toLowerChar_not_upper[of d] by simp
qed

subsection \<open>Normalisation\<close>

text \<open>On Latin-1 text, with the lower case written out.\<close>

lemma normalizeWord_latin1_idempotent: "normalizeWord (normalizeWord x) = normalizeWord x"
proof -
  let ?r = "normalizeWord x"
  have low: "toLowerCase ?r = ?r"
    unfolding toLowerCase_def
    by (rule map_idI) (use normalizeWord_chars toLowerChar_fix in blast)
  have "\<forall>c \<in> set ?r. \<not> isWhiteSpace c"
    using normalizeWord_chars isWordChar_not_ws by blast
  then have tr: "trim ?r = ?r" by (rule trim_no_ws)
  have "filter isWordChar ?r = ?r"
    by (rule filter_True) (use normalizeWord_chars in blast)
  with low tr show ?thesis
    by (simp add: normalizeWord_def[of ?r])
qed

text \<open>On code units: word characters are not white space, and \<open>trimUnits\<close> only
  removes.\<close>

lemma isWordUnit_not_ws: "isWordUnit c \<Longrightarrow> \<not> isWhiteSpaceUnit c"
  by (auto simp: isWordUnit_def isWhiteSpaceUnit_def Let_def)

lemma trimUnits_no_ws:
  assumes "\<forall>c \<in> set s. \<not> isWhiteSpaceUnit c"
  shows "trimUnits s = s"
proof -
  have "dropWhile isWhiteSpaceUnit s = s"
    using assms by (rule dropWhile_none)
  moreover have "dropWhile isWhiteSpaceUnit (rev s) = rev s"
    by (rule dropWhile_none) (use assms in simp)
  ultimately show ?thesis by (simp add: trimUnits_def)
qed

lemma set_trimUnits: "set (trimUnits s) \<subseteq> set s"
proof -
  have "set (dropWhile isWhiteSpaceUnit (rev (dropWhile isWhiteSpaceUnit s)))
          \<subseteq> set (rev (dropWhile isWhiteSpaceUnit s))"
    by (rule set_dropWhileD[THEN subsetI])
  also have "\<dots> \<subseteq> set s"
    using set_dropWhileD[of _ isWhiteSpaceUnit s] by auto
  finally show ?thesis by (simp add: trimUnits_def)
qed

text \<open>The sample table has the two properties of the lower case that the
  idempotence rests on.\<close>

lemma unitCode_lt: "unitCode c < 65536"
  unfolding unitCode_def using unsigned_less[of c, where 'a=nat] by simp

lemma lowerUnit_fixed: "isWordUnit c \<Longrightarrow> \<not> isCapitalUnit c \<Longrightarrow> lowerUnit c = [c]"
  by (auto simp: lowerUnit_def isWordUnit_def isCapitalUnit_def Let_def)

lemma lowerUnit_lowered: "d \<in> set (lowerUnit c) \<Longrightarrow> \<not> isCapitalUnit d"
  using unitCode_lt[of c]
  by (auto simp: lowerUnit_def isCapitalUnit_def Let_def unitCode_def unat_word_ariths
           split: if_splits)

lemma sampleLowerCase_fixed:
  "\<forall>c \<in> set s. isWordUnit c \<and> \<not> isCapitalUnit c \<Longrightarrow> sampleLowerCase s = s"
  by (induction s) (auto simp: sampleLowerCase_def lowerUnit_fixed)

lemma sampleLowerCase_lowered: "c \<in> set (sampleLowerCase s) \<Longrightarrow> \<not> isCapitalUnit c"
  by (auto simp: sampleLowerCase_def dest: lowerUnit_lowered)

text \<open>The Latin-1 strings of the content script are the strings of code units
  below U+0100, and \<open>normalizeWord\<close> there is \<open>normalizeWordUTF16\<close> with a lower
  case that has the Latin-1 part of the table.\<close>

lemma unitCode_unitOfChar: "unitCode (unitOfChar c) = charCode c"
  using charCode_lt[of c] by (simp add: unitCode_def unitOfChar_def unat_of_nat)

lemma isWhiteSpaceUnit_unitOfChar: "isWhiteSpaceUnit (unitOfChar c) = isWhiteSpace c"
  using charCode_lt[of c]
  by (auto simp: isWhiteSpaceUnit_def isWhiteSpace_def unitCode_unitOfChar Let_def)

lemma isWordUnit_unitOfChar: "isWordUnit (unitOfChar c) = isWordChar c"
  by (simp add: isWordUnit_def isWordChar_def unitCode_unitOfChar)

lemma lowerUnit_unitOfChar: "lowerUnit (unitOfChar c) = [unitOfChar (toLowerChar c)]"
proof (cases "(65 \<le> charCode c \<and> charCode c \<le> 90) \<or>
              (192 \<le> charCode c \<and> charCode c \<le> 222 \<and> charCode c \<noteq> 215)")
  case True
  then have "charCode (char_of (charCode c + 32)) = charCode c + 32"
    by (auto simp: charCode_char_of)
  then have "unitOfChar (char_of (charCode c + 32)) = of_nat (charCode c + 32)"
    by (simp only: unitOfChar_def)
  with True show ?thesis
    by (simp add: lowerUnit_def toLowerChar_def unitCode_unitOfChar Let_def)
next
  case False
  with charCode_lt[of c] show ?thesis
    by (auto simp: lowerUnit_def toLowerChar_def unitCode_unitOfChar Let_def)
qed

lemma sampleLowerCase_latin1:
  "sampleLowerCase (map unitOfChar w) = map unitOfChar (toLowerCase w)"
  by (induction w) (simp_all add: sampleLowerCase_def toLowerCase_def lowerUnit_unitOfChar)

lemma trimUnits_latin1: "trimUnits (map unitOfChar w) = map unitOfChar (trim w)"
proof -
  have d: "dropWhile isWhiteSpaceUnit (map unitOfChar v) = map unitOfChar (dropWhile isWhiteSpace v)"
    for v
    by (induction v) (simp_all add: isWhiteSpaceUnit_unitOfChar)
  show ?thesis
    unfolding trimUnits_def trim_def d rev_map d ..
qed

lemma normalizeWord_latin1:
  "normalizeWordUTF16 sampleLowerCase (map unitOfChar w) = map unitOfChar (normalizeWord w)"
proof -
  have f: "filter isWordUnit (map unitOfChar v) = map unitOfChar (filter isWordChar v)" for v
    by (induction v) (simp_all add: isWordUnit_unitOfChar)
  show ?thesis
    by (simp add: normalizeWordUTF16_def normalizeWord_def sampleLowerCase_latin1
          trimUnits_latin1 f)
qed

text \<open>
  C8. Normalisation is idempotent: for every string \<open>x\<close> of UTF-16 code units,
  \<open>normalizeWord (normalizeWord x) = normalizeWord x\<close>, where \<open>normalizeWord\<close>
  lower-cases, trims and strips every code unit outside \<open>\w\<close>. Of the built-in
  lower case two facts are used: a string of lower-case ASCII letters, digits and
  underscores is its own lower case, and no lower-cased string holds a letter of
  \<open>A-Z\<close>. The lower case may turn a code unit outside \<open>\w\<close> into one inside
  (U+212A into \<open>k\<close>) and may change the length (U+0130 into two code units).
\<close>

theorem normalizeWordUTF16_idempotent:
  assumes fixed: "\<And>s. \<forall>c \<in> set s. isWordUnit c \<and> \<not> isCapitalUnit c \<Longrightarrow> lowerCase s = s"
    and lowered: "\<And>s c. c \<in> set (lowerCase s) \<Longrightarrow> \<not> isCapitalUnit c"
  shows "normalizeWordUTF16 lowerCase (normalizeWordUTF16 lowerCase x)
           = normalizeWordUTF16 lowerCase x"
proof -
  let ?r = "normalizeWordUTF16 lowerCase x"
  have chars: "isWordUnit c \<and> \<not> isCapitalUnit c" if "c \<in> set ?r" for c
  proof -
    from that have w: "isWordUnit c" and "c \<in> set (trimUnits (lowerCase x))"
      by (auto simp: normalizeWordUTF16_def)
    then have "c \<in> set (lowerCase x)" using set_trimUnits by blast
    with w lowered show ?thesis by blast
  qed
  have low: "lowerCase ?r = ?r"
    by (rule fixed) (use chars in blast)
  have "\<forall>c \<in> set ?r. \<not> isWhiteSpaceUnit c"
    using chars isWordUnit_not_ws by blast
  then have tr: "trimUnits ?r = ?r" by (rule trimUnits_no_ws)
  have "filter isWordUnit ?r = ?r"
    by (rule filter_True) (use chars in blast)
  with low tr show ?thesis
    by (simp add: normalizeWordUTF16_def[of lowerCase ?r])
qed

text \<open>At a space, the Kelvin sign, U+0130, a space, \<open>H\<close>, \<open>!\<close> and U+3000 the
  result is \<open>kih\<close>.\<close>

theorem normalizeWordUTF16_idempotent_witness:
  "normalizeWordUTF16 sampleLowerCase [32, 8490, 304, 32, 72, 33, 12288] = [107, 105, 104] \<and>
   normalizeWordUTF16 sampleLowerCase
     (normalizeWordUTF16 sampleLowerCase [32, 8490, 304, 32, 72, 33, 12288]) = [107, 105, 104]"
proof -
  have e: "normalizeWordUTF16 sampleLowerCase [32, 8490, 304, 32, 72, 33, 12288]
             = [107, 105, 104]"
    by (simp add: normalizeWordUTF16_def sampleLowerCase_def lowerUnit_def trimUnits_def
          isWordUnit_def isWhiteSpaceUnit_def unitCode_def Let_def)
  show ?thesis
    using e
      normalizeWordUTF16_idempotent [of sampleLowerCase "[32, 8490, 304, 32, 72, 33, 12288]",
        OF sampleLowerCase_fixed sampleLowerCase_lowered]
    by simp
qed

subsection \<open>Replacement policy\<close>

text \<open>
  C4. Policy boundary: with \<open>isEnabled\<close> true, \<open>shouldReplaceWord\<close> is true in mode
  \<open>all\<close> for every entry, whatever its difficulty and whatever the random draw; in
  mode \<open>random\<close> with \<open>replacementPercentage = 0\<close> it is false for every draw in
  \<open>[0, 1)\<close>.
\<close>

theorem shouldReplaceWord_policy_boundary:
  assumes "isEnabled st"
  shows "(replacementMode st = ''all'' \<longrightarrow> shouldReplaceWord r word st) \<and>
         (replacementMode st = ''random'' \<and> replacementPercentage st = 0 \<and>
            0 \<le> r \<and> r < 1 \<longrightarrow> \<not> shouldReplaceWord r word st)"
  using assms by (auto simp: shouldReplaceWord_def)

theorem shouldReplaceWord_policy_boundary_witness:
  "isEnabled (mockSettings ''all'' 100) \<and>
   shouldReplaceWord (1 / 2) (helloWord\<lparr>difficulty := ''hard''\<rparr>) (mockSettings ''all'' 100) \<and>
   isEnabled (mockSettings ''random'' 0) \<and>
   \<not> shouldReplaceWord 0 helloWord (mockSettings ''random'' 0)"
proof -
  have a: "isEnabled (mockSettings ''all'' 100)" and b: "isEnabled (mockSettings ''random'' 0)"
    by (simp_all add: mockSettings_def)
  show ?thesis
    using a b
      shouldReplaceWord_policy_boundary [OF a, of "1 / 2" "helloWord\<lparr>difficulty := ''hard''\<rparr>"]
      shouldReplaceWord_policy_boundary [OF b, of 0 helloWord]
    by (simp add: mockSettings_def)
qed

text \<open>
  C7. Fail-safe policy: \<open>shouldReplaceWord\<close> returns false for every input whose
  \<open>replacementMode\<close> is none of \<open>all\<close>, \<open>random\<close>, \<open>difficulty-based\<close>, and for every
  input in mode \<open>difficulty-based\<close> whose difficulty is none of \<open>easy\<close>, \<open>medium\<close>,
  \<open>hard\<close>. The function has no failing branch: it is a value for every input.
\<close>

theorem shouldReplaceWord_fail_safe:
  "(replacementMode st \<notin> {''all'', ''random'', ''difficulty-based''}
      \<longrightarrow> shouldReplaceWord r word st = False) \<and>
   (replacementMode st = ''difficulty-based'' \<and>
    difficulty word \<notin> {''easy'', ''medium'', ''hard''}
      \<longrightarrow> shouldReplaceWord r word st = False)"
  by (auto simp: shouldReplaceWord_def difficultyMultiplier_def)


theorem shouldReplaceWord_fail_safe_witness:
  "''sometimes'' \<notin> {''all'', ''random'', ''difficulty-based''} \<and>
   shouldReplaceWord (1 / 2) helloWord (mockSettings ''sometimes'' 100) = False \<and>
   ''impossible'' \<notin> {''easy'', ''medium'', ''hard''} \<and>
   shouldReplaceWord 0 (helloWord\<lparr>difficulty := ''impossible''\<rparr>)
     (mockSettings ''difficulty-based'' 100) = False"
  using shouldReplaceWord_fail_safe [of "mockSettings ''sometimes'' 100" "1 / 2" helloWord]
    shouldReplaceWord_fail_safe [of "mockSettings ''difficulty-based'' 100" 0
      "helloWord\<lparr>difficulty := ''impossible''\<rparr>"]
  by (simp add: mockSettings_def)

subsection \<open>Excluded locations\<close>

text \<open>
  C9. For every string that does not parse as a URL, \<open>isDomainExcluded\<close> is true
  for every list of excluded domains, the empty list too, and \<open>initialize\<close>
  returns at once: the script is left as it was, nothing is loaded, installed or
  processed.
\<close>

theorem isDomainExcluded_unparsable:
  assumes "hostnameOf href = None"
  shows "isDomainExcluded hostnameOf href excluded \<and>
         isDomainExcluded hostnameOf href [] \<and>
         initialize hostnameOf href response random s = Inr s"
  using assms by (simp add: isDomainExcluded_def initialize_def)

theorem isDomainExcluded_unparsable_witness:
  "sampleHostname ''not a url'' = None \<and>
   isDomainExcluded sampleHostname ''not a url'' [''example.com''] \<and>
   isDomainExcluded sampleHostname ''not a url'' [] \<and>
   initialize sampleHostname ''not a url'' (Some (Some [helloWord], Some (mockSettings ''all'' 100)))
     (\<lambda>i. 0) (newContentScript helloPage 3) = Inr (newContentScript helloPage 3)"
proof -
  have h: "sampleHostname ''not a url'' = None"
    by (simp add: sampleHostname_def)
  show ?thesis
    using h
      isDomainExcluded_unparsable [of sampleHostname "''not a url''" "[''example.com'']"
        "Some (Some [helloWord], Some (mockSettings ''all'' 100))" "\<lambda>i. 0"
        "newContentScript helloPage 3"]
    by simp
qed


subsection \<open>The processed set\<close>

lemma processWord_processedNodes:
  "processWord random s text word = Inr (s', item, replaced) \<Longrightarrow>
     processedNodes s' = processedNodes s"
  by (auto simp: processWord_def createReplacement_def recordOccurrenceAsync_def Let_def
           split: if_splits option.splits)

lemma processWords_processedNodes:
  "processWords random s text words = Inr (s', newContent, h) \<Longrightarrow>
     processedNodes s' = processedNodes s"
proof (induction words arbitrary: s newContent h)
  case Nil
  then show ?case by simp
next
  case (Cons word words)
  then show ?case
    by (auto split: sum.splits dest!: processWord_processedNodes)
qed

lemma nodeId_replaceChild: "nodeId (replaceChild fragment n root) = nodeId root"
  by (cases root) simp_all

lemma replaceTextNode_keeps:
  "replaceTextNode s root n content = (s', root') \<Longrightarrow>
     processedNodes s' = processedNodes s \<and> nodeId root' = nodeId root"
  by (cases "fragmentOf (nextNodeId s) content")
     (auto simp: replaceTextNode_def nodeId_replaceChild)

lemma processTextNode_keeps:
  assumes p: "processTextNode random s root textNode = Inr (s', root')"
  shows "processedNodes s' = processedNodes s \<and> nodeId root' = nodeId root"
proof (cases "processWords random s (snd textNode) (splitWhitespace (snd textNode))")
  case (Inl e)
  with p show ?thesis
    by (simp add: processTextNode_def Let_def split: if_splits)
next
  case (Inr r)
  then obtain s1 newContent h where
    r: "processWords random s (snd textNode) (splitWhitespace (snd textNode))
          = Inr (s1, newContent, h)"
    by (cases r) auto
  from processWords_processedNodes[OF r] have s1: "processedNodes s1 = processedNodes s" .
  from p r consider "s' = s" "root' = root" | "s' = s1" "root' = root"
    | "replaceTextNode s1 root (fst textNode) newContent = (s', root')"
    by (simp add: processTextNode_def Let_def split: if_splits)
  then show ?thesis
  proof cases
    case 1
    then show ?thesis by simp
  next
    case 2
    with s1 show ?thesis by simp
  next
    case 3
    from replaceTextNode_keeps[OF 3] s1 show ?thesis by simp
  qed
qed

lemma processBatch_grows:
  "processBatch random s root batch = Inr (s', root') \<Longrightarrow>
     processedNodes s \<subseteq> processedNodes s' \<and> nodeId root' = nodeId root"
proof (induction batch arbitrary: s root)
  case Nil
  then show ?case by simp
next
  case (Cons textNode batch)
  show ?case
  proof (cases "fst textNode \<in> processedNodes s")
    case True
    with Cons show ?thesis by simp
  next
    case False
    let ?s = "s\<lparr>processedNodes := insert (fst textNode) (processedNodes s)\<rparr>"
    from False Cons.prems obtain s1 root1 where
      t: "processTextNode random ?s root textNode = Inr (s1, root1)" and
      b: "processBatch random s1 root1 batch = Inr (s', root')"
      by (auto split: sum.splits)
    from processTextNode_keeps[OF t] have "processedNodes s \<subseteq> processedNodes s1"
      and "nodeId root1 = nodeId root" by auto
    with Cons.IH[OF b] show ?thesis by auto
  qed
qed

lemma processBatches_grows:
  "processBatches random s root textNodes = Inr (s', root') \<Longrightarrow>
     processedNodes s \<subseteq> processedNodes s' \<and> nodeId root' = nodeId root"
proof (induction random s root textNodes rule: processBatches.induct)
  case (1 random s root textNodes)
  show ?case
  proof (cases "textNodes = []")
    case True
    with "1.prems" show ?thesis by (simp add: processBatches.simps)
  next
    case False
    with "1.prems" obtain s1 root1 where
      b: "processBatch random s root (take batchSize textNodes) = Inr (s1, root1)" and
      r: "processBatches random s1 root1 (drop batchSize textNodes) = Inr (s', root')"
      by (subst (asm) processBatches.simps) (auto split: sum.splits)
    from "1.IH"[OF False b refl r] processBatch_grows[OF b]
    show ?thesis by auto
  qed
qed

text \<open>With settings loaded, a pass runs to its end.\<close>

lemma processWord_completes:
  assumes "settings s = Some st"
  shows "\<exists>s' item replaced. processWord random s text word = Inr (s', item, replaced) \<and>
           settings s' = Some st"
  using assms
  by (cases "createReplacement (s\<lparr>randomPos := randomPos s + randomDraws st\<rparr>) word
               (the (map_of (vocabularyMap s) (normalizeWord word)))")
     (auto simp: processWord_def createReplacement_def recordOccurrenceAsync_def Let_def
           split: option.splits)

lemma processWords_completes:
  assumes "settings s = Some st"
  shows "\<exists>s' newContent h. processWords random s text words = Inr (s', newContent, h) \<and>
           settings s' = Some st"
  using assms
proof (induction words arbitrary: s)
  case Nil
  then show ?case by auto
next
  case (Cons word words)
  from processWord_completes[OF Cons.prems] obtain s1 item replaced where
    w: "processWord random s text word = Inr (s1, item, replaced)" and s1: "settings s1 = Some st"
    by blast
  from Cons.IH[OF s1] obtain s2 newContent h where
    "processWords random s1 text words = Inr (s2, newContent, h)" "settings s2 = Some st"
    by blast
  with w show ?case by simp
qed

lemma replaceTextNode_settings:
  "replaceTextNode s root n content = (s', root') \<Longrightarrow> settings s' = settings s"
  by (cases "fragmentOf (nextNodeId s) content") (auto simp: replaceTextNode_def)

lemma processTextNode_completes:
  assumes "settings s = Some st"
  shows "\<exists>s' root'. processTextNode random s root textNode = Inr (s', root') \<and>
           settings s' = Some st"
proof -
  from processWords_completes[OF assms] obtain s1 newContent h where
    w: "processWords random s (snd textNode) (splitWhitespace (snd textNode))
          = Inr (s1, newContent, h)" and s1: "settings s1 = Some st"
    by blast
  obtain s2 root2 where r: "replaceTextNode s1 root (fst textNode) newContent = (s2, root2)"
    by (cases "replaceTextNode s1 root (fst textNode) newContent")
  from replaceTextNode_settings[OF r] s1 have "settings s2 = Some st" by simp
  with w s1 r assms show ?thesis
    by (simp add: processTextNode_def Let_def)
qed

lemma processBatch_completes:
  assumes "settings s = Some st"
  shows "\<exists>s' root'. processBatch random s root batch = Inr (s', root') \<and>
           settings s' = Some st"
  using assms
proof (induction batch arbitrary: s root)
  case Nil
  then show ?case by simp
next
  case (Cons textNode batch)
  show ?case
  proof (cases "fst textNode \<in> processedNodes s")
    case True
    with Cons.IH[OF Cons.prems, of root] show ?thesis by simp
  next
    case False
    let ?s = "s\<lparr>processedNodes := insert (fst textNode) (processedNodes s)\<rparr>"
    from Cons.prems have "settings ?s = Some st" by simp
    from processTextNode_completes[OF this] obtain s1 root1 where
      t: "processTextNode random ?s root textNode = Inr (s1, root1)" and
      s1: "settings s1 = Some st"
      by blast
    from Cons.IH[OF s1, of root1] t False show ?thesis by simp
  qed
qed

lemma processBatches_completes:
  assumes "settings s = Some st"
  shows "\<exists>s' root'. processBatches random s root textNodes = Inr (s', root') \<and>
           settings s' = Some st"
  using assms
proof (induction random s root textNodes rule: processBatches.induct)
  case (1 random s root textNodes)
  show ?case
  proof (cases "textNodes = []")
    case True
    with "1.prems" show ?thesis by (simp add: processBatches.simps)
  next
    case False
    from processBatch_completes[OF "1.prems"] obtain s1 root1 where
      b: "processBatch random s root (take batchSize textNodes) = Inr (s1, root1)" and
      s1: "settings s1 = Some st"
      by blast
    from "1.IH"[OF False b refl s1] obtain s' root' where
      "processBatches random s1 root1 (drop batchSize textNodes) = Inr (s', root')"
      "settings s' = Some st"
      by blast
    with False b show ?thesis
      by (subst processBatches.simps) simp
  qed
qed

lemma processContainer_completes:
  assumes "settings s = Some st"
  shows "\<exists>s' container'. processContainer random ancestors s container = Inr (s', container')"
proof (cases "nodeId container \<in> processedNodes s")
  case True
  then show ?thesis by (simp add: processContainer_def)
next
  case False
  let ?s1 = "s\<lparr>processedNodes := insert (nodeId container) (processedNodes s)\<rparr>"
  from assms have "settings ?s1 = Some st" by simp
  from processBatches_completes[OF this] False show ?thesis
    by (simp add: processContainer_def Let_def) blast
qed

text \<open>
  C6. No double processing: once \<open>processContainer\<close> has completed on a
  container, a second call on the same container, with the processed set not
  reset in between, returns at once. The script and the container come back as
  they were: no draw of \<open>Math.random()\<close>, no marker or node created, no entry in
  \<open>replacedWords\<close>, no occurrence scheduled and no text node replaced.
\<close>

theorem processContainer_twice:
  assumes "processContainer random ancestors s container = Inr (s', container')"
  shows "processContainer random ancestors s' container' = Inr (s', container')"
proof (cases "nodeId container \<in> processedNodes s")
  case True
  with assms show ?thesis by (simp add: processContainer_def)
next
  case False
  let ?s1 = "s\<lparr>processedNodes := insert (nodeId container) (processedNodes s)\<rparr>"
  from False assms have
    "processBatches random ?s1 container
       (walkerNodes (processedNodes ?s1) ancestors container) = Inr (s', container')"
    by (simp add: processContainer_def Let_def)
  from processBatches_grows[OF this]
  have "nodeId container' \<in> processedNodes s'" by auto
  then show ?thesis by (simp add: processContainer_def)
qed

theorem processContainer_twice_witness:
  "(case processContainer (\<lambda>i. 0) bodyAncestors enabledScript helloPage of
      Inl e \<Rightarrow> False
    | Inr (s', container') \<Rightarrow>
        textContent container' = ''shalom world'' \<and>
        processContainer (\<lambda>i. 0) bodyAncestors s' container' = Inr (s', container'))"
proof -
  let ?r = "processContainer (\<lambda>i. 0) bodyAncestors enabledScript helloPage"
  have t: "(case ?r of Inl e \<Rightarrow> [] | Inr (s', container') \<Rightarrow> textContent container')
             = ''shalom world''"
    by code_simp
  then obtain s' container' where r: "?r = Inr (s', container')"
    by (cases ?r) auto
  from t r have "textContent container' = ''shalom world''" by simp
  with r processContainer_twice [OF r] show ?thesis by simp
qed

subsection \<open>The extension switched off\<close>

lemma processWords_disabled:
  assumes "settings s = Some st" "\<not> isEnabled st"
  shows "processWords random s text words = Inr (s, map Inl words, False)"
  using assms
  by (induction words)
     (auto simp: processWord_def shouldReplaceWord_def randomDraws_def Let_def
           split: option.splits)

lemma processTextNode_disabled:
  assumes "settings s = Some st" "\<not> isEnabled st"
  shows "processTextNode random s root textNode = Inr (s, root)"
  using processWords_disabled[OF assms]
  by (simp add: processTextNode_def Let_def)

text \<open>
  C5. Disabled invariant: with settings whose \<open>isEnabled\<close> is false,
  \<open>shouldReplaceWord\<close> is false for every entry and every draw, \<open>processPage\<close>
  returns the script and the document as they are, \<open>processTextNode\<close> replaces
  nothing, and the mutation observer does no processing: its callback only sets
  its own timer, and when the timer fires the script is left as it is, so no node
  is queued, no flush of the queue is scheduled and the document is not touched.
\<close>

theorem disabled_invariant:
  assumes "settings s = Some st" and "\<not> isEnabled st"
  shows "shouldReplaceWord r word st = False \<and>
         processPage random s = Inr s \<and>
         processTextNode random s root textNode = Inr (s, root) \<and>
         mutationTimer s mutations = s \<and>
         mutationTimer (observerCallback s mutations) mutations = observerCallback s mutations \<and>
         body (observerCallback s mutations) = body s \<and>
         replacedWords (observerCallback s mutations) = replacedWords s \<and>
         processingQueue (observerCallback s mutations) = processingQueue s \<and>
         processTimeout (observerCallback s mutations) = Some (MutationTimer mutations)"
  using assms processTextNode_disabled[OF assms]
  by (simp add: shouldReplaceWord_def processPage_def enabled_def mutationTimer_def
        observerCallback_def)

theorem disabled_invariant_witness:
  "settings disabledScript = Some disabledSettings \<and> \<not> isEnabled disabledSettings \<and>
   shouldReplaceWord 0 helloWord disabledSettings = False \<and>
   processPage (\<lambda>i. 0) disabledScript = Inr disabledScript \<and>
   processTextNode (\<lambda>i. 0) disabledScript helloPage (2, ''Hello world'')
     = Inr (disabledScript, helloPage) \<and>
   mutationTimer disabledScript [sampleMutation] = disabledScript \<and>
   processingQueue (mutationTimer (observerCallback disabledScript [sampleMutation])
     [sampleMutation]) = processingQueue disabledScript"
proof -
  have a: "settings disabledScript = Some disabledSettings"
    by (simp add: disabledScript_def loadedScript_def loadData_def buildVocabularyMap_def)
  have b: "\<not> isEnabled disabledSettings"
    by (simp add: disabledSettings_def)
  show ?thesis
    using a b
      disabled_invariant [OF a b, of 0 helloWord "\<lambda>i. 0" helloPage "(2, ''Hello world'')"
        "[sampleMutation]"]
    by simp
qed

subsection \<open>Removing a word from the database\<close>

lemma fold_deleteOccurrence:
  "vocabularyStore (fold deleteOccurrence os d) = vocabularyStore d \<and>
   settingsStore (fold deleteOccurrence os d) = settingsStore d \<and>
   occurrencesStore (fold deleteOccurrence os d)
     = fmdrop_set (occurrence_id ` set os) (occurrencesStore d)"
proof (induction os arbitrary: d)
  case Nil
  show ?case by (simp add: fmfilter_alt_defs)
next
  case (Cons a os)
  have "fmdrop_set (occurrence_id ` set os) (fmdrop (occurrence_id a) (occurrencesStore d))
        = fmdrop_set (occurrence_id ` set (a # os)) (occurrencesStore d)"
    by (rule fmap_ext) auto
  with Cons[of "deleteOccurrence a d"] show ?case
    by (simp add: deleteOccurrence_def)
qed

lemma set_map_filter: "set (List.map_filter f xs) = {y. \<exists>x \<in> set xs. f x = Some y}"
  by (induction xs) (auto split: option.splits)

lemma getAllFromIndex_ids:
  "occurrence_id ` set (getAllFromIndex_wordId d wid)
     = {k. \<exists>r. fmlookup (occurrencesStore d) k = Some r \<and> wordId r = wid}"
  (is "?L = ?R")
proof (rule set_eqI)
  fix k
  let ?f = "\<lambda>k. case fmlookup (occurrencesStore d) k of
              None \<Rightarrow> None
            | Some r \<Rightarrow>
                if wordId r = wid
                then Some \<lparr>wordId = wordId r, url = url r, timestamp = timestamp r,
                            context_str = context_str r, occurrence_id = k\<rparr>
                else None"
  have f: "?f k' = Some y \<Longrightarrow>
             occurrence_id y = k' \<and> (\<exists>r. fmlookup (occurrencesStore d) k' = Some r \<and> wordId r = wid)"
    for k' y
    by (auto split: option.splits if_splits)
  show "k \<in> ?L \<longleftrightarrow> k \<in> ?R"
  proof
    assume "k \<in> ?L"
    then obtain y k' where "?f k' = Some y" and "k = occurrence_id y"
      by (auto simp: getAllFromIndex_wordId_def set_map_filter)
    with f[of k' y] show "k \<in> ?R" by auto
  next
    assume "k \<in> ?R"
    then obtain r where r: "fmlookup (occurrencesStore d) k = Some r" "wordId r = wid"
      by auto
    then have "k \<in> set (sorted_list_of_fset (fmdom (occurrencesStore d)))"
      by (simp add: fmlookup_dom_iff)
    moreover from r have "?f k = Some \<lparr>wordId = wordId r, url = url r, timestamp = timestamp r,
                            context_str = context_str r, occurrence_id = k\<rparr>"
      by simp
    ultimately have "\<lparr>wordId = wordId r, url = url r, timestamp = timestamp r,
                       context_str = context_str r, occurrence_id = k\<rparr>
                     \<in> set (getAllFromIndex_wordId d wid)"
      unfolding getAllFromIndex_wordId_def set_map_filter by blast
    then show "k \<in> ?L" by force
  qed
qed

text \<open>
  C10. For every id, \<open>removeWord\<close> on an initialised database deletes the
  vocabulary record with that id and every occurrence record whose \<open>wordId\<close> is
  the id; every other vocabulary record, every occurrence record with another
  \<open>wordId\<close> and the settings store stay as they are.
\<close>

theorem removeWord_frame:
  "\<exists>d'. removeWord \<lparr>db = Some d\<rparr> wid = Inr \<lparr>db = Some d'\<rparr> \<and>
     (\<forall>k. fmlookup (vocabularyStore d') k
            = (if k = wid then None else fmlookup (vocabularyStore d) k)) \<and>
     (\<forall>k. fmlookup (occurrencesStore d') k
            = (case fmlookup (occurrencesStore d) k of
                 None \<Rightarrow> None
               | Some r \<Rightarrow> if wordId r = wid then None else Some r)) \<and>
     settingsStore d' = settingsStore d"
proof -
  let ?d1 = "d\<lparr>vocabularyStore := fmdrop wid (vocabularyStore d)\<rparr>"
  let ?d' = "fold deleteOccurrence (getAllFromIndex_wordId ?d1 wid) ?d1"
  have r: "removeWord \<lparr>db = Some d\<rparr> wid = Inr \<lparr>db = Some ?d'\<rparr>"
    by (simp add: removeWord_def Let_def)
  have v: "fmlookup (vocabularyStore ?d') k
            = (if k = wid then None else fmlookup (vocabularyStore d) k)" for k
    by (simp add: fold_deleteOccurrence)
  have o: "fmlookup (occurrencesStore ?d') k
            = (case fmlookup (occurrencesStore d) k of
                 None \<Rightarrow> None
               | Some r \<Rightarrow> if wordId r = wid then None else Some r)" for k
    by (simp add: fold_deleteOccurrence getAllFromIndex_ids split: option.splits)
  have t: "settingsStore ?d' = settingsStore d"
    by (simp add: fold_deleteOccurrence)
  from r v o t show ?thesis by blast
qed

theorem removeWord_frame_witness:
  "\<exists>d'. removeWord \<lparr>db = Some sampleDatabase\<rparr> ''1'' = Inr \<lparr>db = Some d'\<rparr> \<and>
     fmlookup (vocabularyStore d') ''1'' = None \<and>
     fmlookup (occurrencesStore d') ''occ1'' = None \<and>
     fmlookup (occurrencesStore d') ''occ2''
       = Some \<lparr>wordId = ''2'', url = ''test2.com'', timestamp = 1, context_str = ''ctx''\<rparr> \<and>
     settingsStore d' = settingsStore sampleDatabase"
proof -
  from removeWord_frame [of sampleDatabase "''1''"] obtain d' where
    r: "removeWord \<lparr>db = Some sampleDatabase\<rparr> ''1'' = Inr \<lparr>db = Some d'\<rparr>" and
    v: "\<And>k. fmlookup (vocabularyStore d') k
            = (if k = ''1'' then None else fmlookup (vocabularyStore sampleDatabase) k)" and
    o: "\<And>k. fmlookup (occurrencesStore d') k
            = (case fmlookup (occurrencesStore sampleDatabase) k of
                 None \<Rightarrow> None
               | Some r \<Rightarrow> if wordId r = ''1'' then None else Some r)" and
    t: "settingsStore d' = settingsStore sampleDatabase"
    by blast
  have "fmlookup (occurrencesStore d') ''occ1'' = None"
    unfolding o by (simp add: sampleDatabase_def fmlookup_of_list)
  moreover have "fmlookup (occurrencesStore d') ''occ2''
       = Some \<lparr>wordId = ''2'', url = ''test2.com'', timestamp = 1, context_str = ''ctx''\<rparr>"
    unfolding o by (simp add: sampleDatabase_def fmlookup_of_list)
  moreover have "fmlookup (vocabularyStore d') ''1'' = None"
    unfolding v by simp
  ultimately show ?thesis using r t by blast
qed

subsection \<open>Reset after a render\<close>

text \<open>
  C1. Round-trip reversibility (after a render, \<open>resetReplacements\<close> puts back
  the text each replaced leaf had before) fails. On the page whose only leaf is
  \<open>Hello world\<close>, with the vocabulary \<open>hello\<close> and mode \<open>all\<close>, the render makes
  a marker for \<open>Hello\<close> and records the original word \<open>Hello\<close> in
  \<open>replacedWords\<close>; the reset then writes the text content of the marker, so the
  paragraph reads \<open>shalom world\<close> and not \<open>Hello world\<close>.
\<close>

theorem resetReplacements_keeps_translation:
  "textContent helloPage = ''Hello world'' \<and>
   map_sum id body (processPage (\<lambda>i. 0) enabledScript)
     = Inr (Element 0 ''BODY'' [] [Element 1 ''P'' []
         [Element 3 ''SPAN'' [''hebrew-replacement''] [TextNode 4 ''shalom''],
          TextNode 5 '' '', TextNode 6 ''world'']]) \<and>
   map_sum id replacedWords (processPage (\<lambda>i. 0) enabledScript)
     = Inr [(3, ''Hello'', helloWord)] \<and>
   map_sum id (\<lambda>s. body (resetReplacements s)) (processPage (\<lambda>i. 0) enabledScript)
     = Inr (Element 0 ''BODY'' [] [Element 1 ''P'' []
         [TextNode 7 ''shalom'', TextNode 5 '' '', TextNode 6 ''world'']]) \<and>
   map_sum id (\<lambda>s. textContent (body (resetReplacements s))) (processPage (\<lambda>i. 0) enabledScript)
     = Inr ''shalom world''"
  by code_simp

theorem resetReplacements_keeps_translation_witness:
  "map_sum id (\<lambda>s. textContent (body (resetReplacements s))) (processPage (\<lambda>i. 0) enabledScript)
     \<noteq> Inr (textContent helloPage)"
  using resetReplacements_keeps_translation by simp

subsection \<open>The quick check before tokenizing\<close>

text \<open>
  C2. No false negative of the quick check (\<open>textContainsVocabulary\<close> is true
  whenever a piece of the text normalizes to a key of the vocabulary map) fails.
  With the vocabulary word
  \<open>e-mail\<close> (key \<open>email\<close>) and the text \<open>Send e-mail now\<close>, the piece \<open>e-mail\<close>
  normalizes to the key and the loop over the pieces would replace it, but the
  quick check looks for \<open>email\<close> in the lower-cased text, answers false, and
  \<open>processTextNode\<close> leaves the leaf as it is.
\<close>

theorem textContainsVocabulary_false_negative:
  "''e-mail'' \<in> set (splitWhitespace ''Send e-mail now'') \<and>
   map_of (vocabularyMap emailScript) (normalizeWord ''e-mail'') = Some emailWord \<and>
   \<not> textContainsVocabulary emailScript ''Send e-mail now'' \<and>
   map_sum id (\<lambda>r. snd (snd r))
     (processWords (\<lambda>i. 0) emailScript ''Send e-mail now''
        (splitWhitespace ''Send e-mail now'')) = Inr True \<and>
   processTextNode (\<lambda>i. 0) emailScript emailPage (2, ''Send e-mail now'')
     = Inr (emailScript, emailPage)"
  by code_simp

theorem textContainsVocabulary_false_negative_witness:
  "map_of (vocabularyMap emailScript) (normalizeWord ''e-mail'') \<noteq> None \<and>
   textContainsVocabulary emailScript ''Send e-mail now'' = False"
  using textContainsVocabulary_false_negative by simp

subsection \<open>The filter of the tree walker\<close>

text \<open>What the filter does reject: a text node whose parent has one of the tags
  of \<open>skipTags\<close>, and a text node with an element of one of the script's own
  classes anywhere in its chain.\<close>

lemma acceptNode_parent_skipTag:
  "tag \<in> set skipTags \<Longrightarrow> \<not> acceptNode processed ((tag, cls) # chain) n"
  by (simp add: acceptNode_def)

lemma closestOwn_marker:
  "(tag, cls) \<in> set chain \<Longrightarrow> ''hebrew-replacement'' \<in> set cls \<Longrightarrow> closestOwn chain"
  by (force simp: closestOwn_def ownClasses_def list_ex_iff)

lemma acceptNode_marker_ancestor:
  "(tag, cls) \<in> set chain \<Longrightarrow> ''hebrew-replacement'' \<in> set cls
     \<Longrightarrow> \<not> acceptNode processed chain n"
  using closestOwn_marker[of tag cls chain]
  by (auto simp: acceptNode_def split: list.splits)

text \<open>
  C3. Leaf exclusion (a text leaf is rejected when a \<open>script\<close>, \<open>style\<close>,
  \<open>textarea\<close>, \<open>input\<close>, \<open>code\<close> or \<open>pre\<close> element is anywhere in its ancestor
  chain) fails. The filter compares the tag of the parent only: on a page with
  \<open>Hello\<close> in a \<open>span\<close> inside \<open>pre\<close>, directly inside \<open>script\<close>, and inside a
  marker, the walk returns the leaf below \<open>pre\<close>, and \<open>processPage\<close> replaces it;
  the leaves below \<open>script\<close> and below the marker are left out.
\<close>

theorem walker_visits_leaf_below_pre:
  "walkerNodes {} bodyAncestors codePage = [(3, ''Hello'')] \<and>
   map_sum id body (processPage (\<lambda>i. 0) codeScript)
     = Inr (Element 0 ''BODY'' []
         [Element 1 ''PRE'' []
            [Element 2 ''SPAN'' []
               [Element 9 ''SPAN'' [''hebrew-replacement''] [TextNode 10 ''shalom'']]],
          Element 4 ''SCRIPT'' [] [TextNode 5 ''Hello''],
          Element 6 ''SPAN'' [''hebrew-replacement'']
            [Element 7 ''B'' [] [TextNode 8 ''Hello'']]])"
  by code_simp

theorem walker_visits_leaf_below_pre_witness:
  "(3, ''Hello'') \<in> set (walkerNodes {} bodyAncestors codePage)"
  using walker_visits_leaf_below_pre by simp

end
